theory Spec2Isabelle
  imports
    Complex_Main
    "HOL-Library.Multiset"
    "HOL-Library.Sublist"
    "HOL-Library.Char_ord"
    "HOL-Library.List_Lexorder"
begin

section \<open>Data model\<close>

text \<open>
  \<^verbatim>\<open>app.py\<close> reads \<^verbatim>\<open>india.csv\<close> into a pandas DataFrame \<^verbatim>\<open>df\<close>. One row is one
  district. The columns \<^verbatim>\<open>State\<close> and \<^verbatim>\<open>District\<close> are text, \<^verbatim>\<open>Latitude\<close> and
  \<^verbatim>\<open>Longitude\<close> are numbers. A row carries these four as fields, its further numeric
  cells as a list of label and value, and its further text cells as a list of label and
  text.

  Scope of the model. A row that has no value under the label of a numeric column has a
  blank cell there, which pandas holds as \<^verbatim>\<open>nan\<close> in a \<^verbatim>\<open>float64\<close> column.
  \<^verbatim>\<open>describe\<close> is modelled on columns with blank cells. The other reductions (mean,
  \<^verbatim>\<open>nlargest\<close>, \<^verbatim>\<open>sort_values\<close>) are modelled on columns without blank cells only.
  Arithmetic on finite numbers is exact (type \<open>real\<close>): rounding and overflow of binary64
  and the sign of zero are left out; the wrap-around of \<^verbatim>\<open>int64\<close> subtraction is kept
  where numpy subtracts integers. The special results of float arithmetic that the
  program can display (\<^verbatim>\<open>inf\<close>, \<^verbatim>\<open>-inf\<close>, \<^verbatim>\<open>nan\<close>) are values of type \<open>pyfloat\<close>.
\<close>

record district =
  State :: string
  District :: string
  Latitude :: real
  Longitude :: real
  numeric :: "(string \<times> real) list"
  textual :: "(string \<times> string) list"

text \<open>
  The dtype pandas gives a column when it reads the file: \<^verbatim>\<open>int64\<close> when every cell is
  an integer, \<^verbatim>\<open>float64\<close> when every cell is a number or blank and not all are integers.
  Every other dtype (\<^verbatim>\<open>object\<close> for text, \<^verbatim>\<open>bool\<close>) is no number type for
  \<^verbatim>\<open>select_dtypes\<close> and is \<open>Object\<close> here. Every column of a file that has a header
  and no row is \<^verbatim>\<open>object\<close>.
\<close>

datatype dtype = Int64 | Float64 | Object

text \<open>
  A frame has its column labels, in file order, the dtype of each column
  (\<^verbatim>\<open>df.dtypes\<close>), and its rows, in file order. Filtering keeps labels and dtypes, so a
  frame with no rows still has its columns.
\<close>

record dataframe =
  columns :: "string list"
  dtypes :: "(string \<times> dtype) list"
  rows :: "district list"

datatype py_error = KeyError | TypeError | ValueError | StreamlitDuplicateElementId

datatype cell = Str string | Num real

text \<open>The cell of a row under a column label.\<close>

definition cell_of :: "district \<Rightarrow> string \<Rightarrow> cell option" where
  "cell_of r c =
     (if c = ''State'' then Some (Str (State r))
      else if c = ''District'' then Some (Str (District r))
      else if c = ''Latitude'' then Some (Num (Latitude r))
      else if c = ''Longitude'' then Some (Num (Longitude r))
      else (case map_of (numeric r) c of
              Some v \<Rightarrow> Some (Num v)
            | None \<Rightarrow> map_option Str (map_of (textual r) c)))"

definition number_of :: "district \<Rightarrow> string \<Rightarrow> real option" where
  "number_of r c =
     (if c = ''Latitude'' then Some (Latitude r)
      else if c = ''Longitude'' then Some (Longitude r)
      else map_of (numeric r) c)"

definition dtype_of :: "dataframe \<Rightarrow> string \<Rightarrow> dtype option" where
  "dtype_of df c = map_of (dtypes df) c"

text \<open>
  \<^verbatim>\<open>df.select_dtypes(include=[np.number]).columns.tolist()\<close>: the labels of the columns
  whose dtype is a number type, in file order.
\<close>

definition select_dtypes_number :: "dataframe \<Rightarrow> string list" where
  "select_dtypes_number df =
     filter (\<lambda>c. dtype_of df c = Some Int64 \<or> dtype_of df c = Some Float64) (columns df)"

text \<open>
  \<^verbatim>\<open>df[c]\<close> read as a numeric Series. pandas raises \<^verbatim>\<open>KeyError\<close> for a label the frame
  does not have; the reductions used below raise \<^verbatim>\<open>TypeError\<close> on a text column. The
  select boxes only offer \<^verbatim>\<open>numeric_columns\<close>, so neither happens for a selection made
  in the sidebar. The Series is given for a column without blank cells; for a column
  with a blank cell the model gives no Series and reports \<^verbatim>\<open>KeyError\<close> too.
\<close>

definition numeric_series :: "dataframe \<Rightarrow> string \<Rightarrow> py_error + real list" where
  "numeric_series df c =
     (if c \<notin> set (columns df) then Inl KeyError
      else if c = ''State'' \<or> c = ''District'' then Inl TypeError
      else if list_all (\<lambda>r. number_of r c \<noteq> None) (rows df)
           then Inr (map (\<lambda>r. the (number_of r c)) (rows df))
           else Inl KeyError)"

section \<open>Float results\<close>

text \<open>
  The value of a float expression of the program: a finite number, \<^verbatim>\<open>inf\<close>, \<^verbatim>\<open>-inf\<close>
  or \<^verbatim>\<open>nan\<close>. numpy's \<^verbatim>\<open>float64\<close> does not raise on a division by zero (it warns and
  returns \<^verbatim>\<open>inf\<close>, \<^verbatim>\<open>-inf\<close> or \<^verbatim>\<open>nan\<close>), so the operations are total. A zero
  divisor is taken as \<^verbatim>\<open>+0.0\<close>.
\<close>

datatype pyfloat = Fin real | PInf | NInf | NaN

fun pf_div :: "pyfloat \<Rightarrow> pyfloat \<Rightarrow> pyfloat" where
  "pf_div NaN _ = NaN"
| "pf_div _ NaN = NaN"
| "pf_div (Fin x) (Fin y) =
     (if y = 0 then (if x = 0 then NaN else if 0 < x then PInf else NInf) else Fin (x / y))"
| "pf_div (Fin x) _ = Fin 0"
| "pf_div PInf (Fin y) = (if y < 0 then NInf else PInf)"
| "pf_div NInf (Fin y) = (if y < 0 then PInf else NInf)"
| "pf_div _ _ = NaN"

fun pf_sub :: "pyfloat \<Rightarrow> pyfloat \<Rightarrow> pyfloat" where
  "pf_sub NaN _ = NaN"
| "pf_sub _ NaN = NaN"
| "pf_sub (Fin x) (Fin y) = Fin (x - y)"
| "pf_sub (Fin x) PInf = NInf"
| "pf_sub (Fin x) NInf = PInf"
| "pf_sub PInf PInf = NaN"
| "pf_sub PInf _ = PInf"
| "pf_sub NInf NInf = NaN"
| "pf_sub NInf _ = NInf"

fun pf_mul :: "pyfloat \<Rightarrow> pyfloat \<Rightarrow> pyfloat" where
  "pf_mul NaN _ = NaN"
| "pf_mul _ NaN = NaN"
| "pf_mul (Fin x) (Fin y) = Fin (x * y)"
| "pf_mul (Fin x) PInf = (if x = 0 then NaN else if 0 < x then PInf else NInf)"
| "pf_mul (Fin x) NInf = (if x = 0 then NaN else if 0 < x then NInf else PInf)"
| "pf_mul PInf (Fin y) = (if y = 0 then NaN else if 0 < y then PInf else NInf)"
| "pf_mul NInf (Fin y) = (if y = 0 then NaN else if 0 < y then NInf else PInf)"
| "pf_mul PInf PInf = PInf"
| "pf_mul PInf NInf = NInf"
| "pf_mul NInf PInf = NInf"
| "pf_mul NInf NInf = PInf"


section \<open>pandas operations on a numeric Series\<close>

text \<open>\<^verbatim>\<open>Series.mean()\<close>: \<^verbatim>\<open>nan\<close> on an empty Series, without raising.\<close>

definition mean :: "real list \<Rightarrow> pyfloat" where
  "mean xs = (if xs = [] then NaN else Fin (sum_list xs / real (length xs)))"

text \<open>
  \<^verbatim>\<open>sort_values(by=..., ascending=False)\<close> sorts with numpy's \<^verbatim>\<open>argsort\<close> of the default
  kind (quicksort), which gives the positions of the keys in ascending order and does not
  say in which order equal keys come. numpy is not part of the program: its
  \<^verbatim>\<open>argsort\<close> is a parameter here, a function from the keys to a list of positions.
  pandas reverses the rows, sorts the keys ascending with it and reverses the result.
\<close>

definition sort_values_desc ::
  "(real list \<Rightarrow> nat list) \<Rightarrow> ('a \<Rightarrow> real) \<Rightarrow> 'a list \<Rightarrow> 'a list" where
  "sort_values_desc argsort key xs =
     rev (map (\<lambda>i. rev xs ! i) (argsort (map key (rev xs))))"

text \<open>
  One \<^verbatim>\<open>argsort\<close> among those numpy may be: the positions in ascending order of the
  keys, equal keys in order of position. It is used to evaluate the examples.
\<close>

definition argsort_stable :: "real list \<Rightarrow> nat list" where
  "argsort_stable ks = map snd (sort_key fst (zip ks [0..<length ks]))"

text \<open>
  \<^verbatim>\<open>nlargest(n, column)\<close> with the default \<^verbatim>\<open>keep='first'\<close>: the first \<open>n\<close> rows in
  descending order of the column, the first occurrences of a tied value coming first.
  pandas negates the column and takes the first \<open>n\<close> of a stable ascending sort.
\<close>

definition nlargest :: "nat \<Rightarrow> ('a \<Rightarrow> real) \<Rightarrow> 'a list \<Rightarrow> 'a list" where
  "nlargest n key xs = take n (sort_key (\<lambda>x. - key x) xs)"

text \<open>
  \<^verbatim>\<open>Series.quantile(q)\<close> of a \<^verbatim>\<open>float64\<close> Series without blank cells, with the default
  linear interpolation: on the sorted values, at the position \<open>(n - 1) * q\<close>, between its
  two neighbours \<open>a\<close> and \<open>b\<close>. numpy computes \<open>a + (b - a) * t\<close> below one half and
  \<open>b - (b - a) * (1 - t)\<close> from one half on; over the reals the two are one number.
\<close>

definition quantile :: "real \<Rightarrow> real list \<Rightarrow> pyfloat" where
  "quantile q xs =
     (if xs = [] then NaN
      else let s = sort xs;
               h = real (length xs - 1) * q;
               lo = nat \<lfloor>h\<rfloor>;
               hi = min (lo + 1) (length xs - 1)
           in Fin (s ! lo + (s ! hi - s ! lo) * (h - real lo)))"

text \<open>
  On an \<^verbatim>\<open>int64\<close> Series pandas hands the integers to numpy as they are, and numpy
  takes the difference \<open>b - a\<close> of the two neighbours in \<^verbatim>\<open>int64\<close>, where it wraps
  around, before it multiplies by the float \<open>t\<close>.
\<close>

definition wrap64 :: "int \<Rightarrow> int" where
  "wrap64 z = (z + 2 ^ 63) mod 2 ^ 64 - 2 ^ 63"

definition quantile_int64 :: "real \<Rightarrow> int list \<Rightarrow> pyfloat" where
  "quantile_int64 q xs =
     (if xs = [] then NaN
      else let s = sort xs;
               h = real (length xs - 1) * q;
               lo = nat \<lfloor>h\<rfloor>;
               hi = min (lo + 1) (length xs - 1);
               t = h - real lo;
               d = real_of_int (wrap64 (s ! hi - s ! lo))
           in Fin (if t < 1 / 2 then real_of_int (s ! lo) + d * t
                   else real_of_int (s ! hi) - d * (1 - t)))"

text \<open>\<^verbatim>\<open>Series.std()\<close>: the sample standard deviation (\<^verbatim>\<open>ddof=1\<close>), \<^verbatim>\<open>nan\<close> below two values.\<close>

definition std :: "real list \<Rightarrow> pyfloat" where
  "std xs =
     (if length xs \<le> 1 then NaN
      else let m = sum_list xs / real (length xs)
           in Fin (sqrt (sum_list (map (\<lambda>x. (x - m)\<^sup>2) xs) / (real (length xs) - 1))))"

definition series_min :: "real list \<Rightarrow> pyfloat" where
  "series_min xs = (if xs = [] then NaN else Fin (Min (set xs)))"

definition series_max :: "real list \<Rightarrow> pyfloat" where
  "series_max xs = (if xs = [] then NaN else Fin (Max (set xs)))"

text \<open>
  A numeric Series as \<^verbatim>\<open>describe\<close> receives it: integers (\<^verbatim>\<open>int64\<close>, no cell blank) or
  floats (\<^verbatim>\<open>float64\<close>, \<open>None\<close> for a blank cell, which pandas holds as \<^verbatim>\<open>nan\<close>). Every
  statistic is taken over the cells that are not blank.
\<close>

datatype series = Int64Series "int list" | Float64Series "real option list"

fun non_null :: "series \<Rightarrow> real list" where
  "non_null (Int64Series xs) = map real_of_int xs"
| "non_null (Float64Series xs) = map the (filter (\<lambda>x. x \<noteq> None) xs)"

fun series_quantile :: "real \<Rightarrow> series \<Rightarrow> pyfloat" where
  "series_quantile q (Int64Series xs) = quantile_int64 q xs"
| "series_quantile q (Float64Series xs) = quantile q (map the (filter (\<lambda>x. x \<noteq> None) xs))"


text \<open>
  \<^verbatim>\<open>Series.describe()\<close> of a numeric Series: count, mean, std, min, 25%, 50%, 75%, max.
  The count is the number of cells that are not blank.
\<close>

record summary =
  stat_count :: nat
  stat_mean :: pyfloat
  stat_std :: pyfloat
  stat_min :: pyfloat
  stat_q25 :: pyfloat
  stat_q50 :: pyfloat
  stat_q75 :: pyfloat
  stat_max :: pyfloat

definition describe :: "series \<Rightarrow> summary" where
  "describe sr =
     \<lparr>stat_count = length (non_null sr), stat_mean = mean (non_null sr),
      stat_std = std (non_null sr), stat_min = series_min (non_null sr),
      stat_q25 = series_quantile 0.25 sr, stat_q50 = series_quantile 0.5 sr,
      stat_q75 = series_quantile 0.75 sr, stat_max = series_max (non_null sr)\<rparr>"

text \<open>
  \<^verbatim>\<open>to_csv(index=False)\<close>: a header of all column labels and one record per row, in
  frame order, with the row's cell under every label. The text of the file (separators,
  quoting, number formatting) is left out; a cell the row lacks is an empty field.
\<close>

record csv_file =
  header :: "string list"
  records :: "cell option list list"

definition to_csv :: "dataframe \<Rightarrow> csv_file" where
  "to_csv df =
     \<lparr>header = columns df,
      records = map (\<lambda>r. map (\<lambda>c. cell_of r c) (columns df)) (rows df)\<rparr>"

text \<open>\<^verbatim>\<open>s.replace(" ", "_")\<close>.\<close>

definition replace_space :: "string \<Rightarrow> string" where
  "replace_space s = map (\<lambda>ch. if ch = CHR '' '' then CHR ''_'' else ch) s"

section \<open>Sidebar: regions and numeric attributes (lines 113 and 124-127)\<close>

text \<open>\<^verbatim>\<open>Series.unique()\<close>: the distinct values in order of first appearance.\<close>

fun unique :: "'a list \<Rightarrow> 'a list" where
  "unique [] = []"
| "unique (x # xs) = x # unique (filter (\<lambda>y. y \<noteq> x) xs)"

text \<open>
  \<^verbatim>\<open>list_of_states = ['Overall India'] + sorted(df['State'].unique().tolist())\<close>.
  Python's \<^verbatim>\<open>sorted\<close> on strings is the lexicographic order of the code points, which
  is the order of \<open>string\<close> here.
\<close>

definition list_of_states :: "dataframe \<Rightarrow> string list" where
  "list_of_states df = ''Overall India'' # sort (unique (map State (rows df)))"

text \<open>
  \<^verbatim>\<open>numeric_columns = sorted(df.select_dtypes(include=[np.number]).columns.tolist())\<close>
  \<^verbatim>\<open>numeric_columns = [col for col in numeric_columns if col not in ['Latitude', 'Longitude']]\<close>
\<close>

definition numeric_columns :: "dataframe \<Rightarrow> string list" where
  "numeric_columns df =
     filter (\<lambda>col. col \<notin> set [''Latitude'', ''Longitude''])
       (sort (select_dtypes_number df))"

section \<open>Filtering (lines 171-177)\<close>

text \<open>
  \<^verbatim>\<open>if selected_state == 'Overall India': filtered_df = df.copy()\<close>
  \<^verbatim>\<open>else: filtered_df = df[df['State'] == selected_state].copy()\<close>
\<close>

definition filtered_df :: "dataframe \<Rightarrow> string \<Rightarrow> dataframe" where
  "filtered_df df selected_state =
     (if selected_state = ''Overall India'' then df
      else df\<lparr>rows := filter (\<lambda>r. State r = selected_state) (rows df)\<rparr>)"

section \<open>Centre and zoom of the map (lines 173-180)\<close>

definition zoom_level :: "string \<Rightarrow> nat" where
  "zoom_level selected_state = (if selected_state = ''Overall India'' then 4 else 6)"

definition center_lat :: "dataframe \<Rightarrow> string \<Rightarrow> pyfloat" where
  "center_lat df selected_state =
     (if selected_state = ''Overall India'' then Fin 20.5937
      else mean (map Latitude (rows (filtered_df df selected_state))))"

definition center_lon :: "dataframe \<Rightarrow> string \<Rightarrow> pyfloat" where
  "center_lon df selected_state =
     (if selected_state = ''Overall India'' then Fin 78.9629
      else mean (map Longitude (rows (filtered_df df selected_state))))"

definition center_and_zoom :: "dataframe \<Rightarrow> string \<Rightarrow> pyfloat \<times> pyfloat \<times> nat" where
  "center_and_zoom df selected_state =
     (center_lat df selected_state, center_lon df selected_state, zoom_level selected_state)"

section \<open>Key statistics (lines 183-213)\<close>

text \<open>\<^verbatim>\<open>frame[c].mean()\<close>.\<close>

definition series_mean :: "dataframe \<Rightarrow> string \<Rightarrow> py_error + pyfloat" where
  "series_mean frame c =
     (case numeric_series frame c of Inl e \<Rightarrow> Inl e | Inr xs \<Rightarrow> Inr (mean xs))"

text \<open>\<^verbatim>\<open>(view_mean / global_mean - 1) * 100\<close>.\<close>

definition delta_percent :: "pyfloat \<Rightarrow> pyfloat \<Rightarrow> pyfloat" where
  "delta_percent view_mean global_mean =
     pf_mul (pf_sub (pf_div view_mean global_mean) (Fin 1)) (Fin 100)"

text \<open>
  The \<^verbatim>\<open>delta\<close> argument of \<^verbatim>\<open>st.metric\<close>:
  \<^verbatim>\<open>f"{((filtered_df[c].mean() / df[c].mean() - 1) * 100):.1f}%" if selected_state != 'Overall India' else None\<close>.
  \<open>None\<close> is the absent delta; \<open>Some x\<close> is the number that is formatted and shown
  (\<^verbatim>\<open>inf%\<close>, \<^verbatim>\<open>-inf%\<close> and \<^verbatim>\<open>nan%\<close> for the three special values).
\<close>

definition metric_delta :: "dataframe \<Rightarrow> string \<Rightarrow> string \<Rightarrow> py_error + pyfloat option" where
  "metric_delta df selected_state c =
     (if selected_state \<noteq> ''Overall India'' then
        (case series_mean (filtered_df df selected_state) c of
           Inl e \<Rightarrow> Inl e
         | Inr view_mean \<Rightarrow>
             (case series_mean df c of
                Inl e \<Rightarrow> Inl e
              | Inr global_mean \<Rightarrow> Inr (Some (delta_percent view_mean global_mean))))
      else Inr None)"

section \<open>Top ten districts (line 267)\<close>

text \<open>
  \<^verbatim>\<open>filtered_df.nlargest(10, primary)[['District', primary, 'State']].reset_index(drop=True)\<close>
\<close>

definition top_districts ::
  "dataframe \<Rightarrow> string \<Rightarrow> string \<Rightarrow> py_error + (string \<times> real \<times> string) list" where
  "top_districts df selected_state primary =
     (case numeric_series (filtered_df df selected_state) primary of
        Inl e \<Rightarrow> Inl e
      | Inr xs \<Rightarrow>
          Inr (map (\<lambda>r. (District r, the (number_of r primary), State r))
                 (nlargest 10 (\<lambda>r. the (number_of r primary))
                    (rows (filtered_df df selected_state)))))"

section \<open>Download and data table (lines 343-357)\<close>

text \<open>\<^verbatim>\<open>csv = filtered_df.to_csv(index=False)\<close>.\<close>

definition csv :: "dataframe \<Rightarrow> string \<Rightarrow> csv_file" where
  "csv df selected_state = to_csv (filtered_df df selected_state)"

text \<open>\<^verbatim>\<open>file_name=f'india_census_{selected_state.replace(" ", "_")}.csv'\<close>.\<close>

definition file_name :: "string \<Rightarrow> string" where
  "file_name selected_state = ''india_census_'' @ replace_space selected_state @ ''.csv''"

text \<open>
  \<^verbatim>\<open>filtered_df[['State', 'District', primary, secondary]].sort_values(by=primary, ascending=False)\<close>.
  With \<^verbatim>\<open>primary == secondary\<close> the selected frame has the label twice and
  \<^verbatim>\<open>sort_values\<close> raises \<^verbatim>\<open>ValueError\<close> (the label is not unique). The table is
  modelled for numeric \<^verbatim>\<open>primary\<close> and \<^verbatim>\<open>secondary\<close>, which is what the select boxes
  offer.
\<close>

definition data_table ::
  "(real list \<Rightarrow> nat list) \<Rightarrow> dataframe \<Rightarrow> string \<Rightarrow> string \<Rightarrow> string
     \<Rightarrow> py_error + (string \<times> string \<times> real \<times> real) list" where
  "data_table argsort df selected_state primary secondary =
     (case numeric_series (filtered_df df selected_state) primary of
        Inl e \<Rightarrow> Inl e
      | Inr xs \<Rightarrow>
          (case numeric_series (filtered_df df selected_state) secondary of
             Inl e \<Rightarrow> Inl e
           | Inr ys \<Rightarrow>
               if primary = secondary then Inl ValueError
               else Inr (sort_values_desc argsort (\<lambda>(s, d, p, q). p)
                      (map (\<lambda>r. (State r, District r,
                                  the (number_of r primary), the (number_of r secondary)))
                         (rows (filtered_df df selected_state))))))"

section \<open>Summary statistics (lines 360-371)\<close>

text \<open>
  \<^verbatim>\<open>frame[c]\<close> as the Series \<^verbatim>\<open>describe\<close> works on. A \<^verbatim>\<open>float64\<close> column gives
  its cells, blank ones included. An \<^verbatim>\<open>int64\<close> column gives its integers; pandas
  holds no blank cell in such a column (\<^verbatim>\<open>read_csv\<close> makes a column with a blank cell
  \<^verbatim>\<open>float64\<close>), and the model reports \<^verbatim>\<open>KeyError\<close> for a frame that has one. On a
  column that is not numeric \<^verbatim>\<open>describe\<close> gives a table of another shape; the select
  boxes never offer such a column, the model has no value for that table and reports
  \<^verbatim>\<open>TypeError\<close>.
\<close>

definition series_of :: "dataframe \<Rightarrow> string \<Rightarrow> py_error + series" where
  "series_of frame c =
     (if c \<notin> set (columns frame) then Inl KeyError
      else (case dtype_of frame c of
              Some Int64 \<Rightarrow>
                if list_all (\<lambda>r. number_of r c \<noteq> None) (rows frame)
                then Inr (Int64Series (map (\<lambda>r. \<lfloor>the (number_of r c)\<rfloor>) (rows frame)))
                else Inl KeyError
            | Some Float64 \<Rightarrow> Inr (Float64Series (map (\<lambda>r. number_of r c) (rows frame)))
            | _ \<Rightarrow> Inl TypeError))"

text \<open>\<^verbatim>\<open>filtered_df[c].describe()\<close>.\<close>

definition summary_statistics :: "dataframe \<Rightarrow> string \<Rightarrow> string \<Rightarrow> py_error + summary" where
  "summary_statistics df selected_state c =
     (case series_of (filtered_df df selected_state) c of
        Inl e \<Rightarrow> Inl e
      | Inr sr \<Rightarrow> Inr (describe sr))"

section \<open>The widgets of the sidebar (lines 107-166)\<close>

text \<open>
  streamlit runs the script from its first line on every interaction. What a run sees of
  the user is the state of the widgets: the option chosen in each select box, the two
  check boxes, and the button whose click started the run, if a click did.
  \<^verbatim>\<open>st.button\<close> returns \<^verbatim>\<open>True\<close> only in the run that a click on that very button
  started, and \<^verbatim>\<open>False\<close> in every other run. The two buttons of the script are
  \<^verbatim>\<open>Generate Visualization\<close> (line 166) and \<^verbatim>\<open>Download CSV\<close> (lines 343 and 600);
  labels are written here without their pictograph.
\<close>

datatype button = Generate | Download

record session =
  w_region :: string
  w_primary :: string
  w_secondary :: string
  w_show_stats :: bool
  w_show_comparison :: bool
  w_clicked :: "button option"

text \<open>
  \<^verbatim>\<open>st.selectbox(label, options, index)\<close>: the chosen option when it is one of the
  options, else the option at the default index; \<^verbatim>\<open>None\<close> when there is no option.
\<close>

definition selectbox :: "string list \<Rightarrow> nat \<Rightarrow> string \<Rightarrow> string option" where
  "selectbox opts index chosen =
     (if opts = [] then None
      else if chosen \<in> set opts then Some chosen
      else Some (opts ! index))"

text \<open>
  Lines 114-118. \<^verbatim>\<open>list_of_states\<close> always has its first option, so the box always
  returns a string.
\<close>

definition selected_state_of :: "dataframe \<Rightarrow> session \<Rightarrow> string" where
  "selected_state_of df w =
     (case selectbox (list_of_states df) 0 (w_region w) of
        Some s \<Rightarrow> s
      | None \<Rightarrow> ''Overall India'')"

text \<open>Lines 129-140: both boxes offer \<^verbatim>\<open>numeric_columns\<close>.\<close>

definition primary_of :: "dataframe \<Rightarrow> session \<Rightarrow> string option" where
  "primary_of df w = selectbox (numeric_columns df) 0 (w_primary w)"

definition secondary_of :: "dataframe \<Rightarrow> session \<Rightarrow> string option" where
  "secondary_of df w =
     selectbox (numeric_columns df) (if 1 < length (numeric_columns df) then 1 else 0)
       (w_secondary w)"

section \<open>One \<^verbatim>\<open>if plot:\<close> block (lines 169-371 and 426-628)\<close>

text \<open>
  A widget created without a \<^verbatim>\<open>key\<close> is identified by its kind and its label. Creating
  a second widget of the same identity in one run raises
  \<^verbatim>\<open>StreamlitDuplicateElementId\<close>. A run keeps the labels of the buttons it has created.
\<close>

definition st_button :: "string \<Rightarrow> string list \<Rightarrow> py_error + string list" where
  "st_button label ids =
     (if label \<in> set ids then Inl StreamlitDuplicateElementId else Inr (label # ids))"

record key_statistics =
  total_districts :: nat
  avg_primary :: pyfloat
  delta_primary :: "pyfloat option"
  avg_secondary :: pyfloat
  delta_secondary :: "pyfloat option"
  states_covered :: nat

text \<open>
  Lines 183-213, the arguments of the four \<^verbatim>\<open>st.metric\<close> calls in source order.
  \<^verbatim>\<open>filtered_df[None]\<close>, for a select box without options, raises \<^verbatim>\<open>KeyError\<close>.
\<close>

definition key_stats ::
  "dataframe \<Rightarrow> string \<Rightarrow> string option \<Rightarrow> string option \<Rightarrow> py_error + key_statistics" where
  "key_stats df selected_state primary secondary =
     (case primary of
        None \<Rightarrow> Inl KeyError
      | Some p \<Rightarrow>
     (case series_mean (filtered_df df selected_state) p of
        Inl e \<Rightarrow> Inl e
      | Inr ap \<Rightarrow>
     (case metric_delta df selected_state p of
        Inl e \<Rightarrow> Inl e
      | Inr dp \<Rightarrow>
     (case secondary of
        None \<Rightarrow> Inl KeyError
      | Some q \<Rightarrow>
     (case series_mean (filtered_df df selected_state) q of
        Inl e \<Rightarrow> Inl e
      | Inr as \<Rightarrow>
     (case metric_delta df selected_state q of
        Inl e \<Rightarrow> Inl e
      | Inr ds \<Rightarrow>
          Inr \<lparr>total_districts = length (rows (filtered_df df selected_state)),
               avg_primary = ap, delta_primary = dp,
               avg_secondary = as, delta_secondary = ds,
               states_covered =
                 length (unique (map State (rows (filtered_df df selected_state))))\<rparr>))))))"

text \<open>Lines 183-215: the metrics, when \<^verbatim>\<open>show_stats\<close> is ticked.\<close>

definition metrics_step ::
  "dataframe \<Rightarrow> string \<Rightarrow> string option \<Rightarrow> string option \<Rightarrow> bool
     \<Rightarrow> py_error + key_statistics option" where
  "metrics_step df selected_state primary secondary show_stats =
     (if show_stats
      then (case key_stats df selected_state primary secondary of
              Inl e \<Rightarrow> Inl e
            | Inr k \<Rightarrow> Inr (Some k))
      else Inr None)"

text \<open>Lines 258-267: the top ten of the bar chart, when \<^verbatim>\<open>show_comparison\<close> is ticked.\<close>

definition bar_step ::
  "dataframe \<Rightarrow> string \<Rightarrow> string option \<Rightarrow> bool
     \<Rightarrow> py_error + (string \<times> real \<times> string) list option" where
  "bar_step df selected_state primary show_comparison =
     (if show_comparison
      then (case primary of
              None \<Rightarrow> Inl KeyError
            | Some p \<Rightarrow>
                (case top_districts df selected_state p of
                   Inl e \<Rightarrow> Inl e
                 | Inr t \<Rightarrow> Inr (Some t)))
      else Inr None)"

text \<open>Lines 353-357: the table.\<close>

definition table_step ::
  "(real list \<Rightarrow> nat list) \<Rightarrow> dataframe \<Rightarrow> string \<Rightarrow> string option \<Rightarrow> string option
     \<Rightarrow> py_error + (string \<times> string \<times> real \<times> real) list" where
  "table_step argsort df selected_state primary secondary =
     (case primary of
        None \<Rightarrow> Inl KeyError
      | Some p \<Rightarrow>
          (case secondary of
             None \<Rightarrow> Inl KeyError
           | Some q \<Rightarrow> data_table argsort df selected_state p q))"

text \<open>Lines 365 and 370: one summary.\<close>

definition stats_step :: "dataframe \<Rightarrow> string \<Rightarrow> string option \<Rightarrow> py_error + summary" where
  "stats_step df selected_state c =
     (case c of
        None \<Rightarrow> Inl KeyError
      | Some l \<Rightarrow> summary_statistics df selected_state l)"

text \<open>
  What a block has put on the page when it ends: each part is \<open>None\<close> until the block
  has computed it (the metrics and the bar chart stay \<open>None\<close> when their check box is not
  ticked). The map gets the view, the zoom and the centre.
\<close>

record page =
  metrics :: "key_statistics option"
  map_args :: "(dataframe \<times> nat \<times> pyfloat \<times> pyfloat) option"
  bar_chart :: "(string \<times> real \<times> string) list option"
  download :: "(string \<times> csv_file) option"
  table :: "(string \<times> string \<times> real \<times> real) list option"
  stats_primary :: "summary option"
  stats_secondary :: "summary option"

definition blank_page :: page where
  "blank_page =
     \<lparr>metrics = None, map_args = None, bar_chart = None, download = None, table = None,
      stats_primary = None, stats_secondary = None\<rparr>"

text \<open>
  How a block ends: the page so far, the exception that stopped it (\<open>None\<close> when it ran
  to its last line), and the button labels the run has created.
\<close>

record block_result =
  rendered :: page
  raised :: "py_error option"
  element_ids :: "string list"

text \<open>
  The block, in the order of its lines. The two blocks of the script are the same
  statements; they differ in the \<^verbatim>\<open>key=\<close> arguments of the five \<^verbatim>\<open>st.plotly_chart\<close>
  calls (given in the first block, absent from the second), which keep the charts of the
  two blocks apart. The plotting calls themselves are outside the model. The block
  creates the button \<^verbatim>\<open>Download CSV\<close> without a key and, if the button returns
  \<^verbatim>\<open>True\<close>, serializes the view and offers the download (lines 343-350).
\<close>

definition run_block ::
  "(real list \<Rightarrow> nat list) \<Rightarrow> string list \<Rightarrow> dataframe \<Rightarrow> string \<Rightarrow> string option
     \<Rightarrow> string option \<Rightarrow> bool \<Rightarrow> bool \<Rightarrow> bool \<Rightarrow> block_result" where
  "run_block argsort ids df selected_state primary secondary show_stats show_comparison
     download_clicked =
     (case metrics_step df selected_state primary secondary show_stats of
        Inl e \<Rightarrow> \<lparr>rendered = blank_page, raised = Some e, element_ids = ids\<rparr>
      | Inr m \<Rightarrow>
     (let pg1 = blank_page
            \<lparr>metrics := m,
             map_args := Some (filtered_df df selected_state, zoom_level selected_state,
                               center_lat df selected_state, center_lon df selected_state)\<rparr>
      in
     (case bar_step df selected_state primary show_comparison of
        Inl e \<Rightarrow> \<lparr>rendered = pg1, raised = Some e, element_ids = ids\<rparr>
      | Inr b \<Rightarrow>
     (let pg2 = pg1\<lparr>bar_chart := b\<rparr> in
     (case st_button ''Download CSV'' ids of
        Inl e \<Rightarrow> \<lparr>rendered = pg2, raised = Some e, element_ids = ids\<rparr>
      | Inr ids' \<Rightarrow>
     (let pg3 = pg2
            \<lparr>download :=
               (if download_clicked
                then Some (file_name selected_state, csv df selected_state)
                else None)\<rparr>
      in
     (case table_step argsort df selected_state primary secondary of
        Inl e \<Rightarrow> \<lparr>rendered = pg3, raised = Some e, element_ids = ids'\<rparr>
      | Inr t \<Rightarrow>
     (let pg4 = pg3\<lparr>table := Some t\<rparr> in
     (case stats_step df selected_state primary of
        Inl e \<Rightarrow> \<lparr>rendered = pg4, raised = Some e, element_ids = ids'\<rparr>
      | Inr sp \<Rightarrow>
     (let pg5 = pg4\<lparr>stats_primary := Some sp\<rparr> in
     (case stats_step df selected_state secondary of
        Inl e \<Rightarrow> \<lparr>rendered = pg5, raised = Some e, element_ids = ids'\<rparr>
      | Inr ss \<Rightarrow>
          \<lparr>rendered = pg5\<lparr>stats_secondary := Some ss\<rparr>, raised = None,
           element_ids = ids'\<rparr>)))))))))))"

section \<open>One run of the script\<close>

text \<open>
  A run evaluates the sidebar, then the first \<^verbatim>\<open>if plot:\<close> (line 169), then the second
  (line 426); an exception ends the run where it is raised. \<^verbatim>\<open>plot\<close> is the value of
  the button \<^verbatim>\<open>Generate Visualization\<close>, and the \<^verbatim>\<open>st.button\<close> of line 343 or 600
  returns \<^verbatim>\<open>True\<close> only in a run started by a click on \<^verbatim>\<open>Download CSV\<close>. A block
  that is not run shows the welcome screen (\<open>None\<close> here).
\<close>

record outcome =
  block1 :: "block_result option"
  block2 :: "block_result option"

definition script :: "(real list \<Rightarrow> nat list) \<Rightarrow> dataframe \<Rightarrow> session \<Rightarrow> outcome" where
  "script argsort df w =
     (let selected_state = selected_state_of df w;
          primary = primary_of df w;
          secondary = secondary_of df w;
          plot = (w_clicked w = Some Generate);
          download_clicked = (w_clicked w = Some Download);
          ids = [''Generate Visualization'']
      in
      if plot then
        (let b1 = run_block argsort ids df selected_state primary secondary
                    (w_show_stats w) (w_show_comparison w) download_clicked
         in case raised b1 of
              Some e \<Rightarrow> \<lparr>block1 = Some b1, block2 = None\<rparr>
            | None \<Rightarrow>
                \<lparr>block1 = Some b1,
                 block2 = Some (run_block argsort (element_ids b1) df selected_state primary
                                  secondary (w_show_stats w) (w_show_comparison w)
                                  download_clicked)\<rparr>)
      else \<lparr>block1 = None, block2 = None\<rparr>)"

section \<open>Example frames and sessions\<close>

text \<open>
  The scenario of the specification: region A with one district, region B with two, and
  a second numeric column.
\<close>

definition dist1 :: district where
  "dist1 = \<lparr>State = ''A'', District = ''dist1'', Latitude = 10, Longitude = 20,
            numeric = [(''pop'', 100), (''lit'', 70)], textual = []\<rparr>"

definition dist2 :: district where
  "dist2 = \<lparr>State = ''B'', District = ''dist2'', Latitude = 12, Longitude = 22,
            numeric = [(''pop'', 300), (''lit'', 90)], textual = []\<rparr>"

definition dist3 :: district where
  "dist3 = \<lparr>State = ''B'', District = ''dist3'', Latitude = 14, Longitude = 24,
            numeric = [(''pop'', 500), (''lit'', 80)], textual = []\<rparr>"

definition india :: dataframe where
  "india = \<lparr>columns = [''State'', ''District'', ''Latitude'', ''Longitude'', ''pop'', ''lit''],
            dtypes = [(''State'', Object), (''District'', Object), (''Latitude'', Float64),
                      (''Longitude'', Float64), (''pop'', Int64), (''lit'', Int64)],
            rows = [dist1, dist2, dist3]\<rparr>"


definition collide :: dataframe where
  "collide = \<lparr>columns = [''State'', ''District'', ''Latitude'', ''Longitude'', ''pop''],
              dtypes = [(''State'', Object), (''District'', Object), (''Latitude'', Float64),
                        (''Longitude'', Float64), (''pop'', Int64)],
              rows = [\<lparr>State = ''Overall India'', District = ''d0'', Latitude = 1,
                        Longitude = 2, numeric = [(''pop'', 5)], textual = []\<rparr>,
                      \<lparr>State = ''A'', District = ''d1'', Latitude = 3,
                        Longitude = 4, numeric = [(''pop'', 7)], textual = []\<rparr>]\<rparr>"

text \<open>
  The frame of a file that has the header of the scenario and no row: every column is
  \<^verbatim>\<open>object\<close>. A frame with a text column beside the numeric ones. A frame with a
  blank cell in its second row. A frame whose integer column spans more than \<open>2^63\<close>.
\<close>

definition header_only :: dataframe where
  "header_only =
     \<lparr>columns = [''State'', ''District'', ''Latitude'', ''Longitude'', ''pop'', ''lit''],
      dtypes = [(''State'', Object), (''District'', Object), (''Latitude'', Object),
                (''Longitude'', Object), (''pop'', Object), (''lit'', Object)],
      rows = []\<rparr>"




text \<open>
  Sessions: region B with the two attributes of the scenario, in the run started by a
  click on \<^verbatim>\<open>Generate Visualization\<close> and in the run started by a click on
  \<^verbatim>\<open>Download CSV\<close>; and the first choices of every box with a click on
  \<^verbatim>\<open>Generate Visualization\<close>.
\<close>

definition generate_B :: session where
  "generate_B =
     \<lparr>w_region = ''B'', w_primary = ''pop'', w_secondary = ''lit'', w_show_stats = True,
      w_show_comparison = True, w_clicked = Some Generate\<rparr>"

definition download_B :: session where
  "download_B =
     \<lparr>w_region = ''B'', w_primary = ''pop'', w_secondary = ''lit'', w_show_stats = True,
      w_show_comparison = True, w_clicked = Some Download\<rparr>"

definition generate_default :: session where
  "generate_default =
     \<lparr>w_region = ''Overall India'', w_primary = '''', w_secondary = '''', w_show_stats = True,
      w_show_comparison = True, w_clicked = Some Generate\<rparr>"

section \<open>Filtering: properties\<close>

lemma rows_filtered_df:
  "rows (filtered_df df s) =
     (if s = ''Overall India'' then rows df else filter (\<lambda>r. State r = s) (rows df))"
  by (simp add: filtered_df_def)


text \<open>
  C2. With the sentinel \<^verbatim>\<open>'Overall India'\<close> the view is the whole frame, unchanged.
  With any other region the view holds exactly the rows whose \<^verbatim>\<open>State\<close> equals the
  region: only such rows, each as often as in the frame, and in the frame's order (the
  view is the frame's row list with the other rows struck out).
\<close>

theorem filter_region_exact:
  "(s = ''Overall India'' \<longrightarrow> filtered_df df s = df) \<and>
   (s \<noteq> ''Overall India'' \<longrightarrow>
      (\<forall>r \<in> set (rows (filtered_df df s)). State r = s) \<and>
      (\<forall>r. State r = s \<longrightarrow>
           count_list (rows (filtered_df df s)) r = count_list (rows df) r) \<and>
      subseq (rows (filtered_df df s)) (rows df) \<and>
      rows (filtered_df df s) = filter (\<lambda>r. State r = s) (rows df) \<and>
      columns (filtered_df df s) = columns df)"
proof -
  have cnt: "State r = s \<Longrightarrow> count_list (filter (\<lambda>r. State r = s) xs) r = count_list xs r"
    for r :: district and xs
    by (induction xs) auto
  show ?thesis
    by (auto simp: filtered_df_def cnt)
qed

theorem filter_region_exact_witness:
  "filtered_df india ''Overall India'' = india \<and>
   rows (filtered_df india ''B'') = [dist2, dist3] \<and>
   subseq [dist2, dist3] (rows india)"
  using filter_region_exact [of "''Overall India''" india] filter_region_exact [of "''B''" india]
  by (simp add: india_def dist1_def dist2_def dist3_def)

section \<open>Sidebar: properties\<close>

lemma set_unique: "set (unique xs) = set xs"
  by (induction xs rule: unique.induct) auto


section \<open>The per-region views\<close>

lemma sum_filter_mset_eq:
  "finite S \<Longrightarrow> (\<Sum>r\<in>S. filter_mset (\<lambda>x. f x = r) M) = filter_mset (\<lambda>x. f x \<in> S) M"
proof (induction S rule: finite_induct)
  case empty
  then show ?case by simp
next
  case (insert a S)
  have "filter_mset (\<lambda>x. f x = a) M + filter_mset (\<lambda>x. f x \<in> S) M
          = filter_mset (\<lambda>x. f x \<in> insert a S) M"
    using insert.hyps(2) by (intro multiset_eqI) auto
  with insert show ?case by simp
qed

text \<open>
  C8, as the code has it. The sentinel is an ordinary string, and a district whose
  \<^verbatim>\<open>State\<close> is that string is in no per-region view. When no district has the sentinel
  as its \<^verbatim>\<open>State\<close>: for every region of \<^verbatim>\<open>list_of_states\<close> other than the sentinel the
  view holds only rows of that region, the views of two different regions share no row,
  and the views together hold every row of the frame exactly as often as the frame does.
\<close>

theorem views_partition:
  assumes "''Overall India'' \<notin> State ` set (rows df)"
  shows "(\<forall>r \<in> set (list_of_states df) - {''Overall India''}.
            \<forall>x \<in> set (rows (filtered_df df r)). State x = r) \<and>
         (\<Sum>r \<in> set (list_of_states df) - {''Overall India''}. mset (rows (filtered_df df r)))
            = mset (rows df) \<and>
         (\<forall>r \<in> set (list_of_states df) - {''Overall India''}.
            \<forall>r' \<in> set (list_of_states df) - {''Overall India''}.
              r \<noteq> r' \<longrightarrow> set (rows (filtered_df df r)) \<inter> set (rows (filtered_df df r')) = {})"
proof -
  let ?S = "set (list_of_states df) - {''Overall India''}"
  have S: "?S = State ` set (rows df)"
    using assms by (auto simp: list_of_states_def set_unique)
  have "(\<Sum>r \<in> ?S. mset (rows (filtered_df df r)))
          = (\<Sum>r \<in> ?S. filter_mset (\<lambda>x. State x = r) (mset (rows df)))"
    by (rule sum.cong) (auto simp: rows_filtered_df)
  also have "\<dots> = filter_mset (\<lambda>x. State x \<in> ?S) (mset (rows df))"
    by (rule sum_filter_mset_eq) simp
  also have "\<dots> = mset (rows df)"
    unfolding S by (simp add: filter_mset_eq_conv)
  finally have total: "(\<Sum>r \<in> ?S. mset (rows (filtered_df df r))) = mset (rows df)" .
  show ?thesis
    using total by (auto simp: rows_filtered_df)
qed

theorem views_partition_witness:
  "''Overall India'' \<notin> State ` set (rows india) \<and>
   (\<Sum>r \<in> set (list_of_states india) - {''Overall India''}. mset (rows (filtered_df india r)))
     = mset (rows india)"
proof -
  have h: "''Overall India'' \<notin> State ` set (rows india)"
    by (simp add: india_def dist1_def dist2_def dist3_def)
  from views_partition [OF h] h show ?thesis
    by simp
qed

text \<open>
  C8 as stated fails on the frame \<open>collide\<close>: the regions other than the sentinel are
  \<^verbatim>\<open>A\<close> alone, whose view misses the district of the state named \<^verbatim>\<open>Overall India\<close>;
  and the view selected by that state's name is the whole frame, district of \<^verbatim>\<open>A\<close>
  included.
\<close>

theorem views_partition_counterexample:
  "set (list_of_states collide) - {''Overall India''} = {''A''} \<and>
   \<not> ((\<Sum>r \<in> set (list_of_states collide) - {''Overall India''}.
          mset (rows (filtered_df collide r))) = mset (rows collide)) \<and>
   ''Overall India'' \<in> State ` set (rows collide) \<and>
   map State (rows (filtered_df collide ''Overall India'')) = [''Overall India'', ''A'']"
  by (auto simp: list_of_states_def collide_def filtered_df_def insert_Diff_if)

section \<open>Centre and zoom: properties\<close>

text \<open>
  C3. With the sentinel the centre is (20.5937, 78.9629) and the zoom 4. With any other
  region the zoom is 6 and the centre is pandas' mean of the view's \<^verbatim>\<open>Latitude\<close> and
  of its \<^verbatim>\<open>Longitude\<close>: for a view with rows, the sum divided by the number of rows.
\<close>

theorem center_and_zoom_cases:
  "(s = ''Overall India'' \<longrightarrow> center_and_zoom df s = (Fin 20.5937, Fin 78.9629, 4)) \<and>
   (s \<noteq> ''Overall India'' \<longrightarrow>
      center_and_zoom df s =
        (mean (map Latitude (rows (filtered_df df s))),
         mean (map Longitude (rows (filtered_df df s))), 6) \<and>
      (rows (filtered_df df s) \<noteq> [] \<longrightarrow>
         center_and_zoom df s =
           (Fin (sum_list (map Latitude (rows (filtered_df df s)))
                   / real (length (rows (filtered_df df s)))),
            Fin (sum_list (map Longitude (rows (filtered_df df s)))
                   / real (length (rows (filtered_df df s)))), 6)))"
  by (simp add: center_and_zoom_def center_lat_def center_lon_def zoom_level_def mean_def)

theorem center_and_zoom_cases_witness:
  "center_and_zoom india ''Overall India'' = (Fin 20.5937, Fin 78.9629, 4) \<and>
   rows (filtered_df india ''B'') \<noteq> [] \<and>
   center_and_zoom india ''B'' = (Fin 13, Fin 23, 6)"
  using center_and_zoom_cases [of "''Overall India''" india]
    center_and_zoom_cases [of "''B''" india]
  by (simp add: filtered_df_def india_def dist1_def dist2_def dist3_def mean_def)

section \<open>Delta against the global mean: properties\<close>








section \<open>Top N: properties\<close>






section \<open>Numeric attributes and regions: properties\<close>



section \<open>Summary statistics: properties\<close>


















section \<open>The run of the script: properties\<close>

lemma run_block_fresh:
  assumes "''Download CSV'' \<notin> set ids"
    and "raised (run_block a ids df s p q st cmp dl) = None"
  shows "\<exists>m b t sp ss.
           metrics_step df s p q st = Inr m \<and> bar_step df s p cmp = Inr b \<and>
           run_block a ids df s p q st cmp dl =
             \<lparr>rendered =
                \<lparr>metrics = m,
                 map_args = Some (filtered_df df s, zoom_level s, center_lat df s,
                                  center_lon df s),
                 bar_chart = b,
                 download = (if dl then Some (file_name s, csv df s) else None),
                 table = Some t, stats_primary = Some sp, stats_secondary = Some ss\<rparr>,
              raised = None, element_ids = ''Download CSV'' # ids\<rparr>"
  using assms
  by (auto simp: run_block_def st_button_def blank_page_def Let_def split: sum.splits)

lemma run_block_duplicate:
  assumes "''Download CSV'' \<in> set ids"
    and "metrics_step df s p q st = Inr m" and "bar_step df s p cmp = Inr b"
  shows "run_block a ids df s p q st cmp dl =
           \<lparr>rendered =
              \<lparr>metrics = m,
               map_args = Some (filtered_df df s, zoom_level s, center_lat df s,
                                center_lon df s),
               bar_chart = b, download = None, table = None, stats_primary = None,
               stats_secondary = None\<rparr>,
            raised = Some StreamlitDuplicateElementId, element_ids = ids\<rparr>"
  using assms
  by (simp add: run_block_def st_button_def blank_page_def)

lemma run_block_no_download:
  "\<not> dl \<Longrightarrow> download (rendered (run_block a ids df s p q st cmp dl)) = None"
  by (simp add: run_block_def blank_page_def Let_def split: sum.splits)

section \<open>Views without rows\<close>

lemma selected_state_offered: "selected_state_of df w \<in> set (list_of_states df)"
  by (simp add: selected_state_of_def selectbox_def list_of_states_def)

lemma offered_region_has_rows:
  assumes "s \<in> set (list_of_states df)" and "s \<noteq> ''Overall India''"
  shows "rows (filtered_df df s) \<noteq> []"
proof -
  from assms have "s \<in> State ` set (rows df)"
    by (simp add: list_of_states_def set_unique)
  then obtain r where "r \<in> set (rows df)" "State r = s"
    by auto
  then have "r \<in> set (filter (\<lambda>r. State r = s) (rows df))"
    by simp
  with assms(2) show ?thesis
    by (auto simp: rows_filtered_df filter_empty_conv)
qed

text \<open>
  C5, as the code has it. The code has no check for a view without rows and no result
  that stands for one. The region comes from the select box: a region other than the
  sentinel has at least one row, so the view is without rows only when the frame is and
  the sentinel is selected. Then the centre is the fixed one, (20.5937, 78.9629) with
  zoom 4, and whatever the block hands to the map has that centre: no \<^verbatim>\<open>nan\<close> centre
  reaches the map.
\<close>

theorem empty_view_only_without_records:
  "selected_state_of df w \<in> set (list_of_states df) \<and>
   (selected_state_of df w \<noteq> ''Overall India'' \<longrightarrow>
      rows (filtered_df df (selected_state_of df w)) \<noteq> []) \<and>
   (rows (filtered_df df (selected_state_of df w)) = [] \<longrightarrow>
      selected_state_of df w = ''Overall India'' \<and> rows df = [] \<and>
      center_and_zoom df (selected_state_of df w) = (Fin 20.5937, Fin 78.9629, 4) \<and>
      (\<forall>b. block1 (script a df w) = Some b \<longrightarrow>
           map_args (rendered b) = None \<or>
           map_args (rendered b) = Some (df, 4, Fin 20.5937, Fin 78.9629)))"
proof -
  let ?s = "selected_state_of df w"
  have 1: "?s \<in> set (list_of_states df)"
    by (rule selected_state_offered)
  have 2: "rows (filtered_df df ?s) \<noteq> []" if "?s \<noteq> ''Overall India''"
    using 1 that by (rule offered_region_has_rows)
  have 3: "?s = ''Overall India'' \<and> rows df = [] \<and>
      center_and_zoom df ?s = (Fin 20.5937, Fin 78.9629, 4) \<and>
      (\<forall>b. block1 (script a df w) = Some b \<longrightarrow>
           map_args (rendered b) = None \<or>
           map_args (rendered b) = Some (df, 4, Fin 20.5937, Fin 78.9629))"
    if e: "rows (filtered_df df ?s) = []"
  proof -
    from 2 e have s: "?s = ''Overall India''"
      by blast
    with e have r: "rows df = []"
      by (simp add: rows_filtered_df)
    have c: "center_and_zoom df ?s = (Fin 20.5937, Fin 78.9629, 4)"
      by (simp add: s center_and_zoom_def center_lat_def center_lon_def zoom_level_def)
    have m: "map_args (rendered (run_block a ids df ''Overall India'' p q st cmp dl)) = None \<or>
             map_args (rendered (run_block a ids df ''Overall India'' p q st cmp dl)) =
               Some (df, 4, Fin 20.5937, Fin 78.9629)" for ids p q st cmp dl
      by (simp add: run_block_def blank_page_def Let_def filtered_df_def zoom_level_def
          center_lat_def center_lon_def split: sum.splits)
    have "map_args (rendered b) = None \<or>
           map_args (rendered b) = Some (df, 4, Fin 20.5937, Fin 78.9629)"
      if "block1 (script a df w) = Some b" for b
    proof -
      from that have "b = run_block a [''Generate Visualization''] df ''Overall India''
                            (primary_of df w) (secondary_of df w) (w_show_stats w)
                            (w_show_comparison w) (w_clicked w = Some Download)"
        by (auto simp: script_def Let_def s split: if_splits option.splits)
      then show ?thesis
        by (simp only: m)
    qed
    with s r c show ?thesis
      by blast
  qed
  show ?thesis
    using 1 2 3 by blast
qed

theorem empty_view_only_without_records_witness:
  "selected_state_of india generate_B = ''B'' \<and>
   rows (filtered_df india ''B'') = [dist2, dist3] \<and>
   rows (filtered_df header_only (selected_state_of header_only generate_default)) = [] \<and>
   selected_state_of header_only generate_default = ''Overall India'' \<and>
   center_and_zoom header_only ''Overall India'' = (Fin 20.5937, Fin 78.9629, 4)"
proof -
  have 1: "selected_state_of india generate_B = ''B''"
    by (simp add: selected_state_of_def selectbox_def list_of_states_def generate_B_def
        india_def dist1_def dist2_def dist3_def)
  have 2: "rows (filtered_df india ''B'') = [dist2, dist3]"
    by (simp add: filtered_df_def india_def dist1_def dist2_def dist3_def)
  have 3: "rows (filtered_df header_only (selected_state_of header_only generate_default)) = []"
    by (simp add: filtered_df_def header_only_def)
  note t = empty_view_only_without_records [of header_only generate_default argsort_stable]
  from t 3 have 4: "selected_state_of header_only generate_default = ''Overall India''"
    and 5: "center_and_zoom header_only (selected_state_of header_only generate_default) =
              (Fin 20.5937, Fin 78.9629, 4)"
    by blast+
  from empty_view_only_without_records [of india generate_B argsort_stable] 1 2
  have "rows (filtered_df india ''B'') \<noteq> []"
    by simp
  with 1 2 3 4 5 show ?thesis
    by simp
qed

text \<open>
  C5 as stated fails on the frame of a file with a header and no row. The view has no
  rows; no numeric attribute is offered, so the select boxes return \<^verbatim>\<open>None\<close>; the mean
  of the primary attribute over the view is asked for at line 198 and the run ends there
  with \<^verbatim>\<open>KeyError\<close>, not with a result that stands for an empty view.
\<close>

theorem empty_view_only_without_records_counterexample:
  "rows (filtered_df header_only (selected_state_of header_only generate_default)) = [] \<and>
   numeric_columns header_only = [] \<and>
   primary_of header_only generate_default = None \<and>
   script argsort_stable header_only generate_default =
     \<lparr>block1 = Some \<lparr>rendered = blank_page, raised = Some KeyError,
                      element_ids = [''Generate Visualization'']\<rparr>,
      block2 = None\<rparr>"
  by (simp add: script_def run_block_def metrics_step_def key_stats_def primary_of_def
      secondary_of_def selected_state_of_def selectbox_def numeric_columns_def
      select_dtypes_number_def dtype_of_def list_of_states_def filtered_df_def
      header_only_def generate_default_def)

text \<open>
  C6, what the code does. The serialization of lines 344-350 is never reached. The button
  \<^verbatim>\<open>Download CSV\<close> is created inside \<^verbatim>\<open>if plot:\<close>. In the run that a click on it
  starts, \<^verbatim>\<open>plot\<close> is \<^verbatim>\<open>False\<close> and both blocks show the welcome screen; in the run
  that a click on \<^verbatim>\<open>Generate Visualization\<close> starts, the block runs and its
  \<^verbatim>\<open>Download CSV\<close> button returns \<^verbatim>\<open>False\<close>. So no run of the script puts a download on
  the page.
\<close>

theorem download_never_offered:
  "(\<forall>b. block1 (script a df w) = Some b \<longrightarrow> download (rendered b) = None) \<and>
   (\<forall>b. block2 (script a df w) = Some b \<longrightarrow> download (rendered b) = None) \<and>
   (w_clicked w = Some Download \<longrightarrow> script a df w = \<lparr>block1 = None, block2 = None\<rparr>) \<and>
   (w_clicked w = Some Generate \<longrightarrow> block1 (script a df w) \<noteq> None)"
proof -
  have 1: "download (rendered b) = None" if "block1 (script a df w) = Some b" for b
    using that
    by (auto simp: script_def Let_def run_block_no_download split: if_splits option.splits)
  have 2: "download (rendered b) = None" if "block2 (script a df w) = Some b" for b
    using that
    by (auto simp: script_def Let_def run_block_no_download split: if_splits option.splits)
  have 3: "script a df w = \<lparr>block1 = None, block2 = None\<rparr>" if "w_clicked w = Some Download"
    using that by (simp add: script_def Let_def)
  have 4: "block1 (script a df w) \<noteq> None" if "w_clicked w = Some Generate"
    using that by (simp add: script_def Let_def split: option.splits)
  show ?thesis
    using 1 2 3 4 by blast
qed

theorem download_never_offered_witness:
  "w_clicked download_B = Some Download \<and>
   script argsort_stable india download_B = \<lparr>block1 = None, block2 = None\<rparr> \<and>
   w_clicked generate_B = Some Generate \<and>
   map_option (\<lambda>b. download (rendered b)) (block1 (script argsort_stable india generate_B)) =
     Some None"
proof -
  have d: "w_clicked download_B = Some Download" and g: "w_clicked generate_B = Some Generate"
    by (simp_all add: download_B_def generate_B_def)
  note t1 = download_never_offered [of argsort_stable india download_B]
  note t2 = download_never_offered [of argsort_stable india generate_B]
  have 1: "script argsort_stable india download_B = \<lparr>block1 = None, block2 = None\<rparr>"
    using t1 d by blast
  from t2 g obtain b1 where b1: "block1 (script argsort_stable india generate_B) = Some b1"
    by blast
  with t2 have 2: "download (rendered b1) = None"
    by blast
  show ?thesis
    using d g 1 b1 2 by simp
qed

text \<open>
  C10, what the code does. In a run started by \<^verbatim>\<open>Generate Visualization\<close> the first
  block runs. If it raises, the second block is not run. If it runs to its end, with its
  table and both summaries, the second block computes the same metrics (means and
  deltas), hands the same view, zoom and centre to the map, computes the same top ten,
  and is then stopped by \<^verbatim>\<open>StreamlitDuplicateElementId\<close> at its \<^verbatim>\<open>Download CSV\<close>
  button (line 600): it computes neither its table nor its summaries.
\<close>

theorem second_block_stops_at_its_button:
  assumes "w_clicked w = Some Generate"
  shows "\<exists>b1. block1 (script a df w) = Some b1 \<and>
           (raised b1 \<noteq> None \<longrightarrow> block2 (script a df w) = None) \<and>
           (raised b1 = None \<longrightarrow>
              table (rendered b1) \<noteq> None \<and> stats_primary (rendered b1) \<noteq> None \<and>
              stats_secondary (rendered b1) \<noteq> None \<and>
              (\<exists>b2. block2 (script a df w) = Some b2 \<and>
                    raised b2 = Some StreamlitDuplicateElementId \<and>
                    metrics (rendered b2) = metrics (rendered b1) \<and>
                    map_args (rendered b2) = map_args (rendered b1) \<and>
                    bar_chart (rendered b2) = bar_chart (rendered b1) \<and>
                    table (rendered b2) = None \<and>
                    stats_primary (rendered b2) = None \<and>
                    stats_secondary (rendered b2) = None))"
proof -
  let ?s = "selected_state_of df w" and ?p = "primary_of df w" and ?q = "secondary_of df w"
  let ?ids = "[''Generate Visualization'']"
  let ?b1 = "run_block a ?ids df ?s ?p ?q (w_show_stats w) (w_show_comparison w) False"
  have fresh: "''Download CSV'' \<notin> set ?ids"
    by simp
  have b1: "block1 (script a df w) = Some ?b1"
    using assms by (simp add: script_def Let_def split: option.splits)
  have stop: "block2 (script a df w) = None" if "raised ?b1 \<noteq> None"
    using assms that by (auto simp: script_def Let_def split: option.splits)
  have go: "table (rendered ?b1) \<noteq> None \<and> stats_primary (rendered ?b1) \<noteq> None \<and>
              stats_secondary (rendered ?b1) \<noteq> None \<and>
              (\<exists>b2. block2 (script a df w) = Some b2 \<and>
                    raised b2 = Some StreamlitDuplicateElementId \<and>
                    metrics (rendered b2) = metrics (rendered ?b1) \<and>
                    map_args (rendered b2) = map_args (rendered ?b1) \<and>
                    bar_chart (rendered b2) = bar_chart (rendered ?b1) \<and>
                    table (rendered b2) = None \<and>
                    stats_primary (rendered b2) = None \<and>
                    stats_secondary (rendered b2) = None)"
    if ended: "raised ?b1 = None"
  proof -
    from run_block_fresh [OF fresh ended] obtain m b t sp ss where
      m: "metrics_step df ?s ?p ?q (w_show_stats w) = Inr m"
      and b: "bar_step df ?s ?p (w_show_comparison w) = Inr b"
      and r1: "?b1 =
             \<lparr>rendered =
                \<lparr>metrics = m,
                 map_args = Some (filtered_df df ?s, zoom_level ?s, center_lat df ?s,
                                  center_lon df ?s),
                 bar_chart = b,
                 download = (if False then Some (file_name ?s, csv df ?s) else None),
                 table = Some t, stats_primary = Some sp, stats_secondary = Some ss\<rparr>,
              raised = None, element_ids = ''Download CSV'' # ?ids\<rparr>"
      by blast
    let ?b2 = "run_block a (''Download CSV'' # ?ids) df ?s ?p ?q (w_show_stats w)
                 (w_show_comparison w) False"
    have dup: "''Download CSV'' \<in> set (''Download CSV'' # ?ids)"
      by simp
    note r2 = run_block_duplicate [OF dup m b, of a False]
    have "block2 (script a df w) = Some ?b2"
      using assms by (simp add: script_def Let_def r1)
    with r1 r2 show ?thesis
      by simp
  qed
  have rest: "(raised ?b1 \<noteq> None \<longrightarrow> block2 (script a df w) = None) \<and>
           (raised ?b1 = None \<longrightarrow>
              table (rendered ?b1) \<noteq> None \<and> stats_primary (rendered ?b1) \<noteq> None \<and>
              stats_secondary (rendered ?b1) \<noteq> None \<and>
              (\<exists>b2. block2 (script a df w) = Some b2 \<and>
                    raised b2 = Some StreamlitDuplicateElementId \<and>
                    metrics (rendered b2) = metrics (rendered ?b1) \<and>
                    map_args (rendered b2) = map_args (rendered ?b1) \<and>
                    bar_chart (rendered b2) = bar_chart (rendered ?b1) \<and>
                    table (rendered b2) = None \<and>
                    stats_primary (rendered b2) = None \<and>
                    stats_secondary (rendered b2) = None))"
  proof (rule conjI; rule impI)
    assume "raised ?b1 \<noteq> None"
    then show "block2 (script a df w) = None" by (rule stop)
  next
    assume "raised ?b1 = None"
    then show "table (rendered ?b1) \<noteq> None \<and> stats_primary (rendered ?b1) \<noteq> None \<and>
              stats_secondary (rendered ?b1) \<noteq> None \<and>
              (\<exists>b2. block2 (script a df w) = Some b2 \<and>
                    raised b2 = Some StreamlitDuplicateElementId \<and>
                    metrics (rendered b2) = metrics (rendered ?b1) \<and>
                    map_args (rendered b2) = map_args (rendered ?b1) \<and>
                    bar_chart (rendered b2) = bar_chart (rendered ?b1) \<and>
                    table (rendered b2) = None \<and>
                    stats_primary (rendered b2) = None \<and>
                    stats_secondary (rendered b2) = None)"
      by (rule go)
  qed
  show ?thesis
    by (rule exI [of _ ?b1]) (rule conjI [OF b1 rest])
qed

theorem second_block_stops_at_its_button_witness:
  "w_clicked generate_B = Some Generate \<and>
   map_option raised (block1 (script argsort_stable india generate_B)) = Some None \<and>
   map_option (\<lambda>b. stats_primary (rendered b)) (block1 (script argsort_stable india generate_B)) =
     Some (Some (describe (Int64Series [300, 500]))) \<and>
   map_option (\<lambda>b. table (rendered b)) (block1 (script argsort_stable india generate_B)) =
     Some (Some [(''B'', ''dist3'', 500, 80), (''B'', ''dist2'', 300, 90)]) \<and>
   map_option raised (block2 (script argsort_stable india generate_B)) =
     Some (Some StreamlitDuplicateElementId) \<and>
   map_option (\<lambda>b. bar_chart (rendered b)) (block2 (script argsort_stable india generate_B)) =
     Some (Some [(''dist3'', 500, ''B''), (''dist2'', 300, ''B'')]) \<and>
   map_option (\<lambda>b. stats_primary (rendered b)) (block2 (script argsort_stable india generate_B)) =
     Some None"
proof -
  have g: "w_clicked generate_B = Some Generate"
    and flags: "w_show_stats generate_B = True" "w_show_comparison generate_B = True"
    by (simp_all add: generate_B_def)
  have sel: "selected_state_of india generate_B = ''B''"
    "primary_of india generate_B = Some ''pop''"
    "secondary_of india generate_B = Some ''lit''"
    by (simp_all add: selected_state_of_def primary_of_def secondary_of_def selectbox_def
        list_of_states_def numeric_columns_def select_dtypes_number_def dtype_of_def
        generate_B_def india_def dist1_def dist2_def dist3_def)
  have vp: "numeric_series (filtered_df india ''B'') ''pop'' = Inr [300, 500]"
    and vq: "numeric_series (filtered_df india ''B'') ''lit'' = Inr [90, 80]"
    and gp: "numeric_series india ''pop'' = Inr [100, 300, 500]"
    and gq: "numeric_series india ''lit'' = Inr [70, 90, 80]"
    by (simp_all add: numeric_series_def filtered_df_def india_def dist1_def dist2_def
        dist3_def number_of_def)
  have rows: "rows (filtered_df india ''B'') = [dist2, dist3]"
    by (simp add: filtered_df_def india_def dist1_def dist2_def dist3_def)
  have dt: "dtype_of (filtered_df india ''B'') ''pop'' = Some Int64"
    "dtype_of (filtered_df india ''B'') ''lit'' = Some Int64"
    by (simp_all add: dtype_of_def filtered_df_def india_def)
  have m: "\<exists>m. metrics_step india ''B'' (Some ''pop'') (Some ''lit'') True = Inr m"
    by (simp add: metrics_step_def key_stats_def series_mean_def metric_delta_def vp vq gp gq)
  have b: "bar_step india ''B'' (Some ''pop'') True =
             Inr (Some [(''dist3'', 500, ''B''), (''dist2'', 300, ''B'')])"
    by (simp add: bar_step_def top_districts_def vp rows nlargest_def dist2_def dist3_def
        number_of_def)
  have t: "table_step argsort_stable india ''B'' (Some ''pop'') (Some ''lit'') =
             Inr [(''B'', ''dist3'', 500, 80), (''B'', ''dist2'', 300, 90)]"
    by (simp add: table_step_def data_table_def vp vq rows sort_values_desc_def
        argsort_stable_def dist2_def dist3_def number_of_def upt_rec)
  have sp: "stats_step india ''B'' (Some ''pop'') = Inr (describe (Int64Series [300, 500]))"
    and ss: "stats_step india ''B'' (Some ''lit'') = Inr (describe (Int64Series [90, 80]))"
    by (simp_all add: stats_step_def summary_statistics_def series_of_def dtype_of_def
        filtered_df_def india_def dist1_def dist2_def dist3_def number_of_def)
  from m obtain m0 where m0: "metrics_step india ''B'' (Some ''pop'') (Some ''lit'') True = Inr m0"
    by blast
  have r1: "run_block argsort_stable [''Generate Visualization''] india ''B'' (Some ''pop'')
              (Some ''lit'') True True False =
            \<lparr>rendered =
                \<lparr>metrics = m0,
                 map_args = Some (filtered_df india ''B'', zoom_level ''B'',
                                  center_lat india ''B'', center_lon india ''B''),
                 bar_chart = Some [(''dist3'', 500, ''B''), (''dist2'', 300, ''B'')],
                 download = None,
                 table = Some [(''B'', ''dist3'', 500, 80), (''B'', ''dist2'', 300, 90)],
                 stats_primary = Some (describe (Int64Series [300, 500])),
                 stats_secondary = Some (describe (Int64Series [90, 80]))\<rparr>,
              raised = None, element_ids = [''Download CSV'', ''Generate Visualization'']\<rparr>"
    by (simp add: run_block_def st_button_def blank_page_def m0 b t sp ss)
  have s1: "block1 (script argsort_stable india generate_B) =
              Some (run_block argsort_stable [''Generate Visualization''] india ''B''
                      (Some ''pop'') (Some ''lit'') True True False)"
    by (simp add: script_def Let_def sel g flags r1)
  from second_block_stops_at_its_button [OF g, of argsort_stable india] s1 r1
  obtain b2 where b2: "block2 (script argsort_stable india generate_B) = Some b2"
    "raised b2 = Some StreamlitDuplicateElementId"
    "bar_chart (rendered b2) = Some [(''dist3'', 500, ''B''), (''dist2'', 300, ''B'')]"
    "stats_primary (rendered b2) = None"
    by auto
  show ?thesis
    using g s1 r1 b2 by simp
qed

end
